theory Spec2Isabelle
  imports Main
begin

section \<open>JavaScript numbers and Dates\<close>

text \<open>
  The route file \<^verbatim>\<open>backend/routes/api/bookings.js\<close> compares JavaScript \<^verbatim>\<open>Date\<close>
  objects and the numbers that \<^verbatim>\<open>getTime()\<close> returns. A Date holds a time value: an
  integral number of milliseconds since the epoch, at most 8,640,000,000,000,000 in absolute
  value, or NaN (an "Invalid Date"). All numbers that occur are integers below \<open>2^53\<close> in
  absolute value, where double arithmetic is exact, or NaN. Both are modelled as
  \<open>int option\<close>, with \<open>None\<close> for NaN.
\<close>

type_synonym jsnum = "int option"
type_synonym jsdate = "int option"

text \<open>\<^verbatim>\<open>d.getTime()\<close>: the time value of the Date.\<close>

definition getTime :: "jsdate \<Rightarrow> jsnum" where
  "getTime d = d"

text \<open>\<^verbatim>\<open>x + k\<close> and \<open>x - k\<close> for a number \<open>x\<close> and a literal \<open>k\<close>: NaN stays NaN.\<close>

definition num_plus :: "jsnum \<Rightarrow> int \<Rightarrow> jsnum" where
  "num_plus x k = (case x of None \<Rightarrow> None | Some t \<Rightarrow> Some (t + k))"

definition num_minus :: "jsnum \<Rightarrow> int \<Rightarrow> jsnum" where
  "num_minus x k = (case x of None \<Rightarrow> None | Some t \<Rightarrow> Some (t - k))"

text \<open>
  \<^verbatim>\<open>new Date(n)\<close> for a number \<open>n\<close>: the constructor applies TimeClip, which turns a
  number beyond 8.64e15 milliseconds into NaN.
\<close>

definition TimeClip :: "jsnum \<Rightarrow> jsnum" where
  "TimeClip x =
     (case x of None \<Rightarrow> None
      | Some t \<Rightarrow> if \<bar>t\<bar> > 8640000000000000 then None else Some t)"

definition new_Date :: "jsnum \<Rightarrow> jsdate" where
  "new_Date x = TimeClip x"

text \<open>
  \<^verbatim>\<open>new Date(d)\<close> for a stored column \<open>d\<close>, which is a Date already: a copy with the same
  time value.
\<close>

definition new_Date_copy :: "jsdate \<Rightarrow> jsdate" where
  "new_Date_copy d = d"

text \<open>
  The relational operators \<^verbatim>\<open><\<close>, \<^verbatim>\<open><=\<close>, \<^verbatim>\<open>>=\<close> on Dates and numbers: both sides
  become numbers, and every comparison with NaN is false.
\<close>

fun js_lt :: "jsnum \<Rightarrow> jsnum \<Rightarrow> bool" where
  "js_lt (Some x) (Some y) = (x < y)"
| "js_lt _ _ = False"

fun js_le :: "jsnum \<Rightarrow> jsnum \<Rightarrow> bool" where
  "js_le (Some x) (Some y) = (x \<le> y)"
| "js_le _ _ = False"

fun js_ge :: "jsnum \<Rightarrow> jsnum \<Rightarrow> bool" where
  "js_ge (Some x) (Some y) = (x \<ge> y)"
| "js_ge _ _ = False"

text \<open>
  \<^verbatim>\<open>a || b\<close> with a Date on the left: ToBoolean of an object is true, of an Invalid
  Date as well.
\<close>

definition ToBoolean_Date :: "jsdate \<Rightarrow> bool" where
  "ToBoolean_Date d = True"

definition js_or :: "jsdate \<Rightarrow> jsdate \<Rightarrow> jsdate" where
  "js_or a b = (if ToBoolean_Date a then a else b)"

section \<open>The tables\<close>

text \<open>
  The columns the routes read: the key, the references to the spot and to the holder, and
  the two dates, each as the Date that \<^verbatim>\<open>new Date(column)\<close> constructs. The timestamps
  \<^verbatim>\<open>createdAt\<close> and \<^verbatim>\<open>updatedAt\<close>, which no check reads, are left out.
\<close>

record booking =
  booking_id :: nat
  spotId :: nat
  userId :: nat
  startDate :: jsdate
  endDate :: jsdate

record spot =
  spot_id :: nat
  ownerId :: nat

record store =
  booking_rows :: "booking list"
  spot_rows :: "spot list"

text \<open>\<^verbatim>\<open>Booking.findByPk(k)\<close>, \<^verbatim>\<open>Spot.findByPk(k)\<close>: the row with that key, or null.\<close>

definition Booking_findByPk :: "store \<Rightarrow> nat \<Rightarrow> booking option" where
  "Booking_findByPk st k = find (\<lambda>b. booking_id b = k) (booking_rows st)"

definition Spot_findByPk :: "store \<Rightarrow> nat \<Rightarrow> spot option" where
  "Spot_findByPk st k = find (\<lambda>s. spot_id s = k) (spot_rows st)"

text \<open>
  Modelled from the spec: the association of \<^verbatim>\<open>Spot\<close> and \<^verbatim>\<open>Booking\<close>, which the model
  files declare (they are not among the sources). A reservation refers to its resource by
  \<^verbatim>\<open>spotId\<close> (section 3 of the spec), so the rows that an include of \<^verbatim>\<open>Booking\<close> with
  \<^verbatim>\<open>where: { id: { [Op.not]: excl } }\<close> joins to the spot \<open>sid\<close> are the reservations on
  \<open>sid\<close> with another id than \<open>excl\<close>.
\<close>

definition included_Bookings :: "store \<Rightarrow> nat \<Rightarrow> nat \<Rightarrow> booking list" where
  "included_Bookings st sid excl =
     filter (\<lambda>b. spotId b = sid \<and> booking_id b \<noteq> excl) (booking_rows st)"

text \<open>
  \<^verbatim>\<open>Spot.findByPk(sid, { include: [{ model: Booking, where: ... }] })\<close>. Sequelize makes an
  include that has a \<^verbatim>\<open>where\<close> required (\<^verbatim>\<open>required\<close> defaults to \<^verbatim>\<open>!!include.where\<close>): the
  query is an inner join, and a spot without a matching booking is not loaded at all. The
  result is the spot with its \<^verbatim>\<open>Bookings\<close>, or null.
\<close>

definition Spot_findByPk_include :: "store \<Rightarrow> nat \<Rightarrow> nat \<Rightarrow> (spot \<times> booking list) option" where
  "Spot_findByPk_include st sid excl =
     (case Spot_findByPk st sid of
        None \<Rightarrow> None
      | Some s \<Rightarrow>
          (case included_Bookings st sid excl of
             [] \<Rightarrow> None
           | b # bs \<Rightarrow> Some (s, b # bs)))"

text \<open>
  \<^verbatim>\<open>Spot.findAll({ where: { id: sid }, include: [...] })\<close> with the same include: the list
  of the spots loaded, empty when the inner join has no row.
\<close>

definition Spot_findAll_include :: "store \<Rightarrow> nat \<Rightarrow> nat \<Rightarrow> (spot \<times> booking list) list" where
  "Spot_findAll_include st sid excl =
     (case included_Bookings st sid excl of
        [] \<Rightarrow> []
      | b # bs \<Rightarrow> map (\<lambda>s. (s, b # bs)) (filter (\<lambda>s. spot_id s = sid) (spot_rows st)))"

text \<open>
  Modelled from the spec: \<^verbatim>\<open>ReservationStore.save\<close> and \<^verbatim>\<open>ReservationStore.delete\<close> (the
  model file of \<^verbatim>\<open>Booking\<close> is not among the sources). Saving writes the instance's fields
  to the row of its key; storage enforces no invariant on the dates (section 3 of the spec).
  Destroying removes the row of that key.
\<close>

definition Booking_save :: "store \<Rightarrow> booking \<Rightarrow> store" where
  "Booking_save st b =
     st\<lparr>booking_rows := map (\<lambda>r. if booking_id r = booking_id b then b else r) (booking_rows st)\<rparr>"

definition Booking_destroy :: "store \<Rightarrow> booking \<Rightarrow> store" where
  "Booking_destroy st b =
     st\<lparr>booking_rows := filter (\<lambda>r. booking_id r \<noteq> booking_id b) (booking_rows st)\<rparr>"

section \<open>Requests and outcomes\<close>

text \<open>
  An update request, as far as the route reads it. The middleware and the last handler read
  \<^verbatim>\<open>req.body.startDate\<close> and \<^verbatim>\<open>req.body.endDate\<close>, each only through
  \<^verbatim>\<open>new Date(field)\<close>, so the model holds the Date that this call constructs: \<open>None\<close> when
  the field is missing or does not parse. The chains built with \<^verbatim>\<open>check(field)\<close> of
  express-validator also read the field in \<^verbatim>\<open>req.cookies\<close>, \<^verbatim>\<open>req.headers\<close>,
  \<^verbatim>\<open>req.params\<close> and \<^verbatim>\<open>req.query\<close>: the model holds the Dates constructed from the values
  found there, in that order.
\<close>

record request =
  body_startDate :: jsdate
  body_endDate :: jsdate
  elsewhere_startDate :: "jsdate list"
  elsewhere_endDate :: "jsdate list"

text \<open>A request that carries its dates in the body only.\<close>

definition body_only :: "jsdate \<Rightarrow> jsdate \<Rightarrow> request" where
  "body_only start end =
     \<lparr>body_startDate = start, body_endDate = end,
      elsewhere_startDate = [], elsewhere_endDate = []\<rparr>"

text \<open>
  What a handler throws: \<^verbatim>\<open>new Error(msg)\<close>, or the TypeError of reading a property of
  null.
\<close>

datatype thrown = Error string | TypeError

text \<open>The \<^verbatim>\<open>errors\<close> object of \<^verbatim>\<open>errRes\<close>: each property is absent or a message.\<close>

record errors =
  err_startDate :: "string option"
  err_endDate :: "string option"

definition no_errors :: errors where
  "no_errors = \<lparr>err_startDate = None, err_endDate = None\<rparr>"

text \<open>\<^verbatim>\<open>Object.entries(errs).length\<close>\<close>

definition entries_length :: "errors \<Rightarrow> nat" where
  "entries_length errs =
     (case err_startDate errs of None \<Rightarrow> 0 | Some _ \<Rightarrow> 1) +
     (case err_endDate errs of None \<Rightarrow> 0 | Some _ \<Rightarrow> 1)"

text \<open>What the validators of one express-validator array recorded, per field.\<close>

record vreport =
  v_startDate :: "thrown option"
  v_endDate :: "thrown option"

datatype json =
    Message string
  | ErrRes string errors
  | BookingJson booking

datatype rejection =
    InvalidDateShape vreport
  | ScheduleConflict string vreport

text \<open>
  How a middleware ends: it calls \<^verbatim>\<open>next()\<close>, it answers with
  \<^verbatim>\<open>res.status(n).json(body)\<close>, it throws, or (the two handlers of
  \<^verbatim>\<open>utils/validation.js\<close>) it rejects the request with a failure kind of the spec.
\<close>

datatype outcome =
    Next
  | Respond nat json
  | Throws thrown
  | Rejects rejection

section \<open>The middleware of the routes\<close>

text \<open>
  The routes run behind \<^verbatim>\<open>requireAuth\<close>, so \<^verbatim>\<open>req.user\<close> is set: \<open>user_id\<close> is
  \<^verbatim>\<open>user.id\<close>, and \<open>bookingId\<close> is \<^verbatim>\<open>req.params.bookingId\<close>.
\<close>

definition bookingAuthorize :: "store \<Rightarrow> nat \<Rightarrow> nat \<Rightarrow> outcome" where
  "bookingAuthorize st user_id bookingId =
     (case Booking_findByPk st bookingId of
        None \<Rightarrow> Respond 404 (Message ''Booking couldn't be found'')
      | Some booking \<Rightarrow>
          if user_id \<noteq> userId booking then Respond 403 (Message ''Forbidden'')
          else Next)"

text \<open>\<open>now\<close> is the reading of the clock that \<^verbatim>\<open>new Date()\<close> takes, always a valid Date.\<close>

definition pastBookingEndCheck :: "int \<Rightarrow> store \<Rightarrow> nat \<Rightarrow> outcome" where
  "pastBookingEndCheck now st bookingId =
     (case Booking_findByPk st bookingId of
        None \<Rightarrow> Throws TypeError
      | Some booking \<Rightarrow>
          (let pastEnd = new_Date_copy (endDate booking)
           in if js_lt pastEnd (Some now)
              then Respond 403 (Message ''Past bookings can't be modified'')
              else Next))"

text \<open>
  In \<^verbatim>\<open>user.id !== booking.userId && user.id !== spot.ownerId\<close> the right operand, which
  reads a property of \<^verbatim>\<open>spot\<close>, is evaluated only when the left one is true.
\<close>

definition bookingDeleteAuthorize :: "store \<Rightarrow> nat \<Rightarrow> nat \<Rightarrow> outcome" where
  "bookingDeleteAuthorize st user_id bookingId =
     (case Booking_findByPk st bookingId of
        None \<Rightarrow> Respond 404 (Message ''Booking couldn't be found'')
      | Some booking \<Rightarrow>
          (let spot = Spot_findByPk st (spotId booking)
           in if user_id \<noteq> userId booking
              then (case spot of
                      None \<Rightarrow> Throws TypeError
                    | Some sp \<Rightarrow>
                        if user_id \<noteq> ownerId sp then Respond 403 (Message ''Forbidden'')
                        else Next)
              else Next))"

text \<open>The body of the \<^verbatim>\<open>forEach\<close> of \<^verbatim>\<open>noSameDates\<close>, on the \<^verbatim>\<open>errors\<close> object.\<close>

definition noSameDates_each :: "jsdate \<Rightarrow> jsdate \<Rightarrow> errors \<Rightarrow> booking \<Rightarrow> errors" where
  "noSameDates_each start end errs booking =
     (let bookingStart = new_Date_copy (startDate booking);
          bookingEnd = new_Date_copy (endDate booking);
          errs1 =
            (if js_ge start (num_minus (getTime bookingStart) 86300000) \<and>
                js_le start (num_plus (getTime bookingStart) 86300000)
             then errs\<lparr>err_startDate := Some ''Start date conflicts with an existing booking''\<rparr>
             else errs)
      in if js_ge end (num_minus (getTime bookingEnd) 86300000) \<and>
            js_le end (num_plus (getTime bookingEnd) 86300000)
         then errs1\<lparr>err_endDate := Some ''End date conflicts with an existing booking''\<rparr>
         else errs1)"

definition noSameDates :: "store \<Rightarrow> nat \<Rightarrow> request \<Rightarrow> outcome" where
  "noSameDates st bookingId body =
     (let start = body_startDate body;
          end = body_endDate body
      in case Booking_findByPk st bookingId of
           None \<Rightarrow> Throws TypeError
         | Some booking \<Rightarrow>
             (case Spot_findByPk_include st (spotId booking) (booking_id booking) of
                None \<Rightarrow> Throws TypeError
              | Some (spot, Bookings) \<Rightarrow>
                  (let errs = foldl (noSameDates_each start end) no_errors Bookings
                   in if entries_length errs \<noteq> 0
                      then Respond 403
                        (ErrRes ''Sorry, this spot is already booked for the specified dates'' errs)
                      else Next)))"

definition noBookingAround_each :: "jsdate \<Rightarrow> jsdate \<Rightarrow> errors \<Rightarrow> booking \<Rightarrow> errors" where
  "noBookingAround_each start end errs booking =
     (let bookingStart = new_Date_copy (startDate booking);
          bookingEnd = new_Date_copy (endDate booking)
      in if js_ge bookingStart start \<and> js_le bookingEnd end
         then errs\<lparr>err_startDate := Some ''Start date conflicts with an existing booking'',
                   err_endDate := Some ''End date conflicts with an existing booking''\<rparr>
         else errs)"

definition noBookingAround :: "store \<Rightarrow> nat \<Rightarrow> request \<Rightarrow> outcome" where
  "noBookingAround st bookingId body =
     (let start = body_startDate body;
          end = body_endDate body
      in case Booking_findByPk st bookingId of
           None \<Rightarrow> Throws TypeError
         | Some booking \<Rightarrow>
             (case Spot_findByPk_include st (spotId booking) (booking_id booking) of
                None \<Rightarrow> Throws TypeError
              | Some (spot, Bookings) \<Rightarrow>
                  (let errs = foldl (noBookingAround_each start end) no_errors Bookings
                   in if entries_length errs \<noteq> 0
                      then Respond 403
                        (ErrRes ''Sorry, this spot is already booked for the specified dates'' errs)
                      else Next)))"

subsection \<open>The validators\<close>

text \<open>
  A custom validator of express-validator fails when its function throws; \<open>None\<close> is a
  validator that passed. \<open>val\<close> is the Date constructed from the field under validation.
\<close>

definition validateBooking_startDate :: "int \<Rightarrow> jsdate \<Rightarrow> thrown option" where
  "validateBooking_startDate now val =
     (let start = val
      in if js_lt start (Some now) then Some (Error ''startDate cannot be in the past'')
         else None)"

definition validateBooking_endDate :: "int \<Rightarrow> request \<Rightarrow> jsdate \<Rightarrow> thrown option" where
  "validateBooking_endDate now body val =
     (let start = body_startDate body;
          startBuffer = new_Date (num_plus (getTime start) 86300000);
          end = val
      in if js_lt end (Some now) \<or> js_le end startBuffer
         then Some (Error ''endDate cannot be on or before startDate'')
         else None)"

text \<open>
  A \<^verbatim>\<open>forEach\<close> whose callback may throw: the first throw leaves the loop.
\<close>

fun forEach_throw :: "('a \<Rightarrow> thrown option) \<Rightarrow> 'a list \<Rightarrow> thrown option" where
  "forEach_throw f [] = None"
| "forEach_throw f (x # xs) =
     (case f x of Some e \<Rightarrow> Some e | None \<Rightarrow> forEach_throw f xs)"

definition bookingConflictCheck_startDate :: "store \<Rightarrow> nat \<Rightarrow> jsdate \<Rightarrow> thrown option" where
  "bookingConflictCheck_startDate st bookingId val =
     (let newDate = val
      in case Booking_findByPk st bookingId of
           None \<Rightarrow> Some TypeError
         | Some booking \<Rightarrow>
             (let spotsList = Spot_findAll_include st (spotId booking) (booking_id booking)
              in forEach_throw (\<lambda>(spot, Bookings).
                   forEach_throw (\<lambda>booking.
                     (let bookingStart = new_Date_copy (startDate booking);
                          bookingEnd = new_Date_copy (endDate booking)
                      in if js_ge newDate bookingStart \<and> js_le newDate bookingEnd
                         then Some (Error ''Start date conflicts with an existing booking'')
                         else None)) Bookings) spotsList))"

definition bookingConflictCheck_endDate :: "store \<Rightarrow> nat \<Rightarrow> jsdate \<Rightarrow> thrown option" where
  "bookingConflictCheck_endDate st bookingId val =
     (let newDate = val
      in case Booking_findByPk st bookingId of
           None \<Rightarrow> Some TypeError
         | Some booking \<Rightarrow>
             (let spotsList = Spot_findAll_include st (spotId booking) (booking_id booking)
              in forEach_throw (\<lambda>(spot, Bookings).
                   forEach_throw (\<lambda>booking.
                     (let bookingStart = new_Date_copy (startDate booking);
                          bookingEnd = new_Date_copy (endDate booking)
                      in if js_ge newDate bookingStart \<and> js_le newDate bookingEnd
                         then Some (Error ''End date conflicts with an existing booking'')
                         else None)) Bookings) spotsList))"

text \<open>
  Modelled from the spec: \<^verbatim>\<open>handleValidationErrors\<close> and \<^verbatim>\<open>handleBookingConflict\<close> of
  \<^verbatim>\<open>utils/validation.js\<close>, which is not among the sources. A report with a failed field
  ends the request: with the failure kind InvalidDateShape after the date-shape validators,
  and with ScheduleConflict and the top-level message of section 4.2 after the
  point-containment validators. An empty report falls through to the next stage.
\<close>

definition handleValidationErrors :: "vreport \<Rightarrow> outcome" where
  "handleValidationErrors rep =
     (if v_startDate rep = None \<and> v_endDate rep = None then Next
      else Rejects (InvalidDateShape rep))"

definition handleBookingConflict :: "vreport \<Rightarrow> outcome" where
  "handleBookingConflict rep =
     (if v_startDate rep = None \<and> v_endDate rep = None then Next
      else Rejects (ScheduleConflict
             ''Sorry, this spot is already booked for the specified dates'' rep))"

text \<open>
  Each validator of \<^verbatim>\<open>validateBooking\<close> and \<^verbatim>\<open>pastBookingEndCheck\<close> reads the clock
  itself; a \<open>clock\<close> holds the readings of one update request, one for each chain and one
  for the past-end check.
\<close>

record clock =
  now_startDate :: int
  now_endDate :: int
  now_pastEnd :: int

text \<open>
  A chain \<^verbatim>\<open>check(field).custom(f)\<close> runs \<open>f\<close> on the value of the field in every request
  location that has one (body, cookies, headers, params, query), and on the undefined value
  of the body when no location has one; every failure is recorded. The model runs \<open>f\<close> on
  the Date of the body and on the Dates of the other locations. On the Invalid Date of a
  body without the field each validator of this file passes, or throws the TypeError that
  it throws on every value, so nothing is recorded that the code does not record. The report
  keeps the first failure of a field.
\<close>

fun first_failure :: "(jsdate \<Rightarrow> thrown option) \<Rightarrow> jsdate list \<Rightarrow> thrown option" where
  "first_failure f [] = None"
| "first_failure f (val # vals) =
     (case f val of Some e \<Rightarrow> Some e | None \<Rightarrow> first_failure f vals)"

text \<open>
  The two chains of an array run one after the other; the handler at the end of the array
  reads the report.
\<close>

definition validateBooking_report :: "clock \<Rightarrow> request \<Rightarrow> vreport" where
  "validateBooking_report clk body =
     \<lparr>v_startDate = first_failure (validateBooking_startDate (now_startDate clk))
                      (body_startDate body # elsewhere_startDate body),
      v_endDate = first_failure (validateBooking_endDate (now_endDate clk) body)
                    (body_endDate body # elsewhere_endDate body)\<rparr>"

definition validateBooking :: "clock \<Rightarrow> request \<Rightarrow> outcome" where
  "validateBooking clk body = handleValidationErrors (validateBooking_report clk body)"

definition bookingConflictCheck_report :: "store \<Rightarrow> nat \<Rightarrow> request \<Rightarrow> vreport" where
  "bookingConflictCheck_report st bookingId body =
     \<lparr>v_startDate = first_failure (bookingConflictCheck_startDate st bookingId)
                      (body_startDate body # elsewhere_startDate body),
      v_endDate = first_failure (bookingConflictCheck_endDate st bookingId)
                    (body_endDate body # elsewhere_endDate body)\<rparr>"

definition bookingConflictCheck :: "store \<Rightarrow> nat \<Rightarrow> request \<Rightarrow> outcome" where
  "bookingConflictCheck st bookingId body =
     handleBookingConflict (bookingConflictCheck_report st bookingId body)"

subsection \<open>The routes\<close>

text \<open>A middleware that does not call \<^verbatim>\<open>next()\<close> ends the chain.\<close>

definition and_then :: "outcome \<Rightarrow> outcome \<Rightarrow> outcome" where
  "and_then a b = (case a of Next \<Rightarrow> b | _ \<Rightarrow> a)"

text \<open>The last handler of \<^verbatim>\<open>router.put('/:bookingId', ...)\<close>.\<close>

definition put_handler :: "store \<Rightarrow> nat \<Rightarrow> request \<Rightarrow> store \<times> outcome" where
  "put_handler st bookingId body =
     (let start = body_startDate body;
          end = body_endDate body
      in case Booking_findByPk st bookingId of
           None \<Rightarrow> (st, Throws TypeError)
         | Some updatedBooking \<Rightarrow>
             (let saved = updatedBooking
                    \<lparr>startDate := js_or start (startDate updatedBooking),
                     endDate := js_or end (endDate updatedBooking)\<rparr>
              in (Booking_save st saved, Respond 200 (BookingJson saved))))"

text \<open>
  \<^verbatim>\<open>router.put('/:bookingId', requireAuth, bookingAuthorize, validateBooking,
  pastBookingEndCheck, noSameDates, noBookingAround, bookingConflictCheck, handler)\<close>:
  the middleware before the handler, in the order of the route.
\<close>

definition put_checks :: "clock \<Rightarrow> store \<Rightarrow> nat \<Rightarrow> nat \<Rightarrow> request \<Rightarrow> outcome" where
  "put_checks clk st user_id bookingId body =
     and_then (bookingAuthorize st user_id bookingId)
    (and_then (validateBooking clk body)
    (and_then (pastBookingEndCheck (now_pastEnd clk) st bookingId)
    (and_then (noSameDates st bookingId body)
    (and_then (noBookingAround st bookingId body)
              (bookingConflictCheck st bookingId body)))))"

definition put_route :: "clock \<Rightarrow> store \<Rightarrow> nat \<Rightarrow> nat \<Rightarrow> request \<Rightarrow> store \<times> outcome" where
  "put_route clk st user_id bookingId body =
     (case put_checks clk st user_id bookingId body of
        Next \<Rightarrow> put_handler st bookingId body
      | out \<Rightarrow> (st, out))"

text \<open>The last handler of \<^verbatim>\<open>router.delete('/:bookingId', ...)\<close>.\<close>

definition delete_handler :: "int \<Rightarrow> store \<Rightarrow> nat \<Rightarrow> store \<times> outcome" where
  "delete_handler now st bookingId =
     (case Booking_findByPk st bookingId of
        None \<Rightarrow> (st, Throws TypeError)
      | Some booking \<Rightarrow>
          (let bookingStart = new_Date_copy (startDate booking);
               bookingEnd = new_Date_copy (endDate booking)
           in if js_ge (Some now) bookingStart \<and> js_le (Some now) bookingEnd
              then (st, Respond 403
                     (Message ''Bookings that have been started can't be deleted''))
              else (Booking_destroy st booking,
                    Respond 200 (Message ''Successfully deleted''))))"

text \<open>\<^verbatim>\<open>router.delete('/:bookingId', requireAuth, bookingDeleteAuthorize, handler)\<close>\<close>

definition delete_route :: "int \<Rightarrow> store \<Rightarrow> nat \<Rightarrow> nat \<Rightarrow> store \<times> outcome" where
  "delete_route now st user_id bookingId =
     (case bookingDeleteAuthorize st user_id bookingId of
        Next \<Rightarrow> delete_handler now st bookingId
      | out \<Rightarrow> (st, out))"

section \<open>The vocabulary of the properties\<close>

text \<open>
  The spec's words, for the statements below: the buffer constant of section 4.1, "within
  the buffer" for two instants (an Invalid Date is no instant, and is within the buffer of
  nothing), and the comparison set of an update, the other reservations on the resource of
  the reservation under modification.
\<close>

definition PROXIMITY_BUFFER_MS :: int where
  "PROXIMITY_BUFFER_MS = 86300000"

definition within_buffer :: "jsdate \<Rightarrow> jsdate \<Rightarrow> bool" where
  "within_buffer a b =
     (case a of None \<Rightarrow> False
      | Some x \<Rightarrow> (case b of None \<Rightarrow> False | Some y \<Rightarrow> \<bar>x - y\<bar> \<le> PROXIMITY_BUFFER_MS))"

definition others_on_resource :: "store \<Rightarrow> booking \<Rightarrow> booking set" where
  "others_on_resource st R =
     {b \<in> set (booking_rows st). spotId b = spotId R \<and> booking_id b \<noteq> booking_id R}"

fun reported :: "outcome \<Rightarrow> errors" where
  "reported (Respond n (ErrRes m errs)) = errs"
| "reported _ = no_errors"

definition flags_startDate :: "outcome \<Rightarrow> bool" where
  "flags_startDate out =
     (err_startDate (reported out) = Some ''Start date conflicts with an existing booking'')"

definition flags_endDate :: "outcome \<Rightarrow> bool" where
  "flags_endDate out =
     (err_endDate (reported out) = Some ''End date conflicts with an existing booking'')"


text \<open>
  The enclosure of section 4.1 (the other reservation lies in the candidate interval) and the
  point containment of section 4.2 (a candidate instant lies in the other reservation's
  interval, both ends included).
\<close>

definition encloses :: "jsdate \<Rightarrow> jsdate \<Rightarrow> booking \<Rightarrow> bool" where
  "encloses cand_start cand_end other =
     (case (cand_start, cand_end, startDate other, endDate other) of
        (Some s, Some e, Some os, Some oe) \<Rightarrow> os \<ge> s \<and> oe \<le> e
      | _ \<Rightarrow> False)"

definition lies_within :: "jsdate \<Rightarrow> booking \<Rightarrow> bool" where
  "lies_within cand other =
     (case (cand, startDate other, endDate other) of
        (Some t, Some os, Some oe) \<Rightarrow> os \<le> t \<and> t \<le> oe
      | _ \<Rightarrow> False)"

text \<open>
  For a cancellation: "now" falls within the reservation's interval, both ends included; and
  the reservation has not started yet.
\<close>

definition in_progress :: "int \<Rightarrow> booking \<Rightarrow> bool" where
  "in_progress now R =
     (case (startDate R, endDate R) of
        (Some s, Some e) \<Rightarrow> s \<le> now \<and> now \<le> e
      | _ \<Rightarrow> False)"

definition not_started :: "int \<Rightarrow> booking \<Rightarrow> bool" where
  "not_started now R = (case startDate R of Some s \<Rightarrow> now < s | None \<Rightarrow> False)"

text \<open>
  For self-exclusion: a reservation that conflicts with a candidate interval under one of the
  three passes; the update that leaves the dates of a reservation as they are; an outcome
  that is a conflict report; and a conflict reported by one of the three conflict checks.
\<close>

definition conflicts_with :: "jsdate \<Rightarrow> jsdate \<Rightarrow> booking \<Rightarrow> bool" where
  "conflicts_with s e b =
     (within_buffer s (startDate b) \<or> within_buffer e (endDate b) \<or> encloses s e b \<or>
      lies_within s b \<or> lies_within e b)"

definition unchanged_dates :: "booking \<Rightarrow> request" where
  "unchanged_dates R = body_only (startDate R) (endDate R)"

fun is_conflict :: "outcome \<Rightarrow> bool" where
  "is_conflict (Respond n (ErrRes m errs)) = True"
| "is_conflict (Rejects (ScheduleConflict m rep)) = True"
| "is_conflict _ = False"

definition reports_conflict :: "store \<Rightarrow> nat \<Rightarrow> request \<Rightarrow> bool" where
  "reports_conflict st bookingId body =
     (is_conflict (noSameDates st bookingId body) \<or>
      is_conflict (noBookingAround st bookingId body) \<or>
      is_conflict (bookingConflictCheck st bookingId body))"

section \<open>Example data\<close>

text \<open>
  One spot, owned by user 10, with the reservations 11 (held by user 20) and 12 (held by
  user 21); instants are in milliseconds. \<open>store_one\<close> has the reservation 11 only.
\<close>

definition spot_a :: spot where
  "spot_a = \<lparr>spot_id = 5, ownerId = 10\<rparr>"

definition booking_a :: booking where
  "booking_a = \<lparr>booking_id = 11, spotId = 5, userId = 20,
                  startDate = Some 1000000000, endDate = Some 1200000000\<rparr>"

definition booking_b :: booking where
  "booking_b = \<lparr>booking_id = 12, spotId = 5, userId = 21,
                  startDate = Some 2000000000, endDate = Some 2200000000\<rparr>"

definition store_two :: store where
  "store_two = \<lparr>booking_rows = [booking_a, booking_b], spot_rows = [spot_a]\<rparr>"

definition store_one :: store where
  "store_one = \<lparr>booking_rows = [booking_a], spot_rows = [spot_a]\<rparr>"


text \<open>
  A clock whose three readings are the same instant; an update to dates far from every other
  reservation; and an update whose two fields are the number 8640000000000000, the last
  instant a Date can hold.
\<close>

definition clock_at :: "int \<Rightarrow> clock" where
  "clock_at t = \<lparr>now_startDate = t, now_endDate = t, now_pastEnd = t\<rparr>"

definition body_alone :: request where
  "body_alone = body_only (Some 3000000000) (Some 3200000000)"

definition body_range_end :: request where
  "body_range_end = body_only (new_Date (Some 8640000000000000)) (new_Date (Some 8640000000000000))"


text \<open>
  An update to dates that were in the past long ago, and one to dates after every
  reservation of the example.
\<close>

definition body_past :: request where
  "body_past = body_only (Some 1000) (Some 2000)"

definition body_free :: request where
  "body_free = body_only (Some 6000000000) (Some 6200000000)"

text \<open>
  The same update with \<^verbatim>\<open>?startDate=1970-01-25T07:20:00.000Z\<close> in the query string, the
  instant 2100000000, which lies in the reservation 12.
\<close>

definition body_query :: request where
  "body_query = body_free\<lparr>elsewhere_startDate := [Some 2100000000]\<rparr>"


section \<open>Requests\<close>

lemma body_only_fields [simp]:
  "body_startDate (body_only s e) = s"
  "body_endDate (body_only s e) = e"
  "elsewhere_startDate (body_only s e) = []"
  "elsewhere_endDate (body_only s e) = []"
  by (simp_all add: body_only_def)

text \<open>Every validator passes on an Invalid Date, as on the one of a missing body field.\<close>

lemma forEach_throw_None: "forEach_throw (\<lambda>x. None) xs = None"
  by (induction xs) auto

lemma validators_pass_on_Invalid_Date:
  "validateBooking_startDate now None = None"
  "validateBooking_endDate now body None = None"
  "Booking_findByPk st bookingId = Some R \<Longrightarrow>
     bookingConflictCheck_startDate st bookingId None = None"
  "Booking_findByPk st bookingId = Some R \<Longrightarrow>
     bookingConflictCheck_endDate st bookingId None = None"
  by (simp_all add: validateBooking_startDate_def validateBooking_endDate_def
      bookingConflictCheck_startDate_def bookingConflictCheck_endDate_def
      forEach_throw_None case_prod_unfold)

lemma first_failure_None: "first_failure (\<lambda>d. None) ds = None"
  by (induction ds) auto

lemma first_failure_const:
  "first_failure (\<lambda>d. if P d then Some e else None) ds =
     (if \<exists>d\<in>set ds. P d then Some e else None)"
  by (induction ds) auto

section \<open>The buffered proximity pass\<close>

lemma set_included_Bookings:
  "set (included_Bookings st (spotId R) (booking_id R)) = others_on_resource st R"
  by (auto simp: included_Bookings_def others_on_resource_def)

lemma buffer_test:
  "(js_ge a (num_minus (getTime (new_Date_copy b)) 86300000) \<and>
    js_le a (num_plus (getTime (new_Date_copy b)) 86300000)) = within_buffer a b"
  by (cases a; cases b)
     (auto simp: within_buffer_def PROXIMITY_BUFFER_MS_def num_minus_def num_plus_def
        getTime_def new_Date_copy_def)

lemma foldl_noSameDates_start:
  "err_startDate (foldl (noSameDates_each s e) errs bs) =
     (if \<exists>b\<in>set bs. within_buffer s (startDate b)
      then Some ''Start date conflicts with an existing booking''
      else err_startDate errs)"
  by (induction bs arbitrary: errs) (simp_all add: noSameDates_each_def Let_def buffer_test)

lemma foldl_noSameDates_end:
  "err_endDate (foldl (noSameDates_each s e) errs bs) =
     (if \<exists>b\<in>set bs. within_buffer e (endDate b)
      then Some ''End date conflicts with an existing booking''
      else err_endDate errs)"
  by (induction bs arbitrary: errs) (simp_all add: noSameDates_each_def Let_def buffer_test)

lemma entries_length_0: "(entries_length errs = 0) = (err_startDate errs = None \<and> err_endDate errs = None)"
  by (simp add: entries_length_def split: option.splits)

lemma Spot_findByPk_include_eq:
  "Spot_findByPk st sid = Some sp \<Longrightarrow>
   Spot_findByPk_include st sid excl =
     (if included_Bookings st sid excl = [] then None else Some (sp, included_Bookings st sid excl))"
  by (simp add: Spot_findByPk_include_def split: list.splits)

lemma noSameDates_outcome:
  assumes "Booking_findByPk st bookingId = Some R"
    and "Spot_findByPk st (spotId R) = Some sp"
  shows "noSameDates st bookingId body =
     (if others_on_resource st R = {} then Throws TypeError
      else if (\<exists>b\<in>others_on_resource st R. within_buffer (body_startDate body) (startDate b)) \<or>
              (\<exists>b\<in>others_on_resource st R. within_buffer (body_endDate body) (endDate b))
      then Respond 403 (ErrRes ''Sorry, this spot is already booked for the specified dates''
             \<lparr>err_startDate =
                (if \<exists>b\<in>others_on_resource st R. within_buffer (body_startDate body) (startDate b)
                 then Some ''Start date conflicts with an existing booking'' else None),
              err_endDate =
                (if \<exists>b\<in>others_on_resource st R. within_buffer (body_endDate body) (endDate b)
                 then Some ''End date conflicts with an existing booking'' else None)\<rparr>)
      else Next)"
proof -
  define bs where "bs = included_Bookings st (spotId R) (booking_id R)"
  define errs where
    "errs = foldl (noSameDates_each (body_startDate body) (body_endDate body)) no_errors bs"
  define S where
    "S = (\<exists>b\<in>others_on_resource st R. within_buffer (body_startDate body) (startDate b))"
  define E where
    "E = (\<exists>b\<in>others_on_resource st R. within_buffer (body_endDate body) (endDate b))"
  have out: "noSameDates st bookingId body =
      (if bs = [] then Throws TypeError
       else if entries_length errs \<noteq> 0
         then Respond 403 (ErrRes ''Sorry, this spot is already booked for the specified dates'' errs)
         else Next)"
    using assms by (simp add: noSameDates_def Spot_findByPk_include_eq Let_def bs_def errs_def)
  have set_bs: "set bs = others_on_resource st R"
    by (simp add: bs_def set_included_Bookings)
  have empty: "(bs = []) = (others_on_resource st R = {})"
    using set_bs by (metis set_empty)
  have s: "err_startDate errs =
      (if S then Some ''Start date conflicts with an existing booking'' else None)"
    by (simp add: errs_def S_def foldl_noSameDates_start set_bs no_errors_def)
  have e: "err_endDate errs =
      (if E then Some ''End date conflicts with an existing booking'' else None)"
    by (simp add: errs_def E_def foldl_noSameDates_end set_bs no_errors_def)
  have errs: "errs = \<lparr>err_startDate =
                (if S then Some ''Start date conflicts with an existing booking'' else None),
              err_endDate =
                (if E then Some ''End date conflicts with an existing booking'' else None)\<rparr>"
    using s e by (cases errs) simp
  show ?thesis
    unfolding out empty S_def[symmetric] E_def[symmetric]
    by (cases S; cases E) (simp_all add: entries_length_0 s e errs)
qed

text \<open>
  Claim C1. For an update of the existing reservation \<open>R\<close> (its resource exists),
  \<^verbatim>\<open>noSameDates\<close> flags \<^verbatim>\<open>startDate\<close> if and only if some other reservation on the same
  resource has its start within 86,300,000 ms of the candidate start, both boundaries
  included, and flags \<^verbatim>\<open>endDate\<close> if and only if some such reservation has its end within
  86,300,000 ms of the candidate end. A report with a flag is answered with status 403 and
  the top-level message "Sorry, this spot is already booked for the specified dates".
  Without a flag the middleware calls \<^verbatim>\<open>next()\<close>, unless the comparison set is empty, where
  the lookup returns null and reading \<^verbatim>\<open>spot.Bookings\<close> throws.
\<close>

theorem noSameDates_buffered_pass:
  assumes "Booking_findByPk st bookingId = Some R"
    and "Spot_findByPk st (spotId R) = Some sp"
  shows "(flags_startDate (noSameDates st bookingId body) \<longleftrightarrow>
            (\<exists>b\<in>others_on_resource st R. within_buffer (body_startDate body) (startDate b))) \<and>
         (flags_endDate (noSameDates st bookingId body) \<longleftrightarrow>
            (\<exists>b\<in>others_on_resource st R. within_buffer (body_endDate body) (endDate b))) \<and>
         noSameDates st bookingId body =
           (if flags_startDate (noSameDates st bookingId body) \<or>
               flags_endDate (noSameDates st bookingId body)
            then Respond 403
                   (ErrRes ''Sorry, this spot is already booked for the specified dates''
                      (reported (noSameDates st bookingId body)))
            else if others_on_resource st R = {} then Throws TypeError
            else Next)"
proof -
  define S where
    "S = (\<exists>b\<in>others_on_resource st R. within_buffer (body_startDate body) (startDate b))"
  define E where
    "E = (\<exists>b\<in>others_on_resource st R. within_buffer (body_endDate body) (endDate b))"
  have nonempty: "others_on_resource st R \<noteq> {}" if "S \<or> E"
    using that by (auto simp: S_def E_def)
  show ?thesis
    unfolding noSameDates_outcome[OF assms] S_def[symmetric] E_def[symmetric]
    using nonempty
    by (cases S; cases E) (simp_all add: flags_startDate_def flags_endDate_def no_errors_def)
qed

text \<open>The claim at a reservation 50,000,000 ms after the start of the other one.\<close>

lemma find_booking_a_two: "Booking_findByPk store_two 11 = Some booking_a"
  by (simp add: Booking_findByPk_def store_two_def booking_a_def)

lemma find_spot_a_two: "Spot_findByPk store_two (spotId booking_a) = Some spot_a"
  by (simp add: Spot_findByPk_def store_two_def booking_a_def spot_a_def)

theorem noSameDates_buffered_pass_witness:
  "Booking_findByPk store_two 11 = Some booking_a \<and>
   Spot_findByPk store_two (spotId booking_a) = Some spot_a \<and>
   flags_startDate (noSameDates store_two 11
      (body_only (Some 2050000000) (Some 2400000000))) \<and>
   \<not> flags_endDate (noSameDates store_two 11
      (body_only (Some 2050000000) (Some 2400000000))) \<and>
   noSameDates store_two 11 (body_only (Some 2050000000) (Some 2400000000)) =
     Respond 403 (ErrRes ''Sorry, this spot is already booked for the specified dates''
       \<lparr>err_startDate = Some ''Start date conflicts with an existing booking'',
        err_endDate = None\<rparr>)"
proof -
  let ?body = "(body_only (Some 2050000000) (Some 2400000000))"
  have others: "others_on_resource store_two booking_a = {booking_b}"
    by (auto simp: others_on_resource_def store_two_def booking_a_def booking_b_def)
  note th = noSameDates_buffered_pass [OF find_booking_a_two find_spot_a_two, of ?body]
  have s: "flags_startDate (noSameDates store_two 11 ?body)"
    using th by (simp add: others within_buffer_def PROXIMITY_BUFFER_MS_def booking_b_def)
  have e: "\<not> flags_endDate (noSameDates store_two 11 ?body)"
    using th by (simp add: others within_buffer_def PROXIMITY_BUFFER_MS_def booking_b_def)
  have "noSameDates store_two 11 ?body =
     Respond 403 (ErrRes ''Sorry, this spot is already booked for the specified dates''
       \<lparr>err_startDate = Some ''Start date conflicts with an existing booking'',
        err_endDate = None\<rparr>)"
    by (simp add: noSameDates_def Booking_findByPk_def Spot_findByPk_include_def Spot_findByPk_def
        included_Bookings_def store_two_def booking_a_def booking_b_def spot_a_def
        noSameDates_each_def no_errors_def entries_length_def getTime_def new_Date_copy_def
        num_plus_def num_minus_def)
  with s e find_booking_a_two find_spot_a_two show ?thesis by simp
qed


section \<open>The enclosure pass\<close>

lemma enclose_test:
  "(js_ge (new_Date_copy (startDate b)) s \<and> js_le (new_Date_copy (endDate b)) e) = encloses s e b"
  by (cases s; cases e; cases "startDate b"; cases "endDate b")
     (auto simp: encloses_def new_Date_copy_def)

lemma foldl_noBookingAround:
  "foldl (noBookingAround_each s e) errs bs =
     (if \<exists>b\<in>set bs. encloses s e b
      then errs\<lparr>err_startDate := Some ''Start date conflicts with an existing booking'',
                err_endDate := Some ''End date conflicts with an existing booking''\<rparr>
      else errs)"
  by (induction bs arbitrary: errs) (simp_all add: noBookingAround_each_def Let_def enclose_test)

lemma noBookingAround_outcome:
  assumes "Booking_findByPk st bookingId = Some R"
    and "Spot_findByPk st (spotId R) = Some sp"
  shows "noBookingAround st bookingId body =
     (if others_on_resource st R = {} then Throws TypeError
      else if \<exists>b\<in>others_on_resource st R. encloses (body_startDate body) (body_endDate body) b
      then Respond 403 (ErrRes ''Sorry, this spot is already booked for the specified dates''
             \<lparr>err_startDate = Some ''Start date conflicts with an existing booking'',
              err_endDate = Some ''End date conflicts with an existing booking''\<rparr>)
      else Next)"
proof -
  define bs where "bs = included_Bookings st (spotId R) (booking_id R)"
  have set_bs: "set bs = others_on_resource st R"
    by (simp add: bs_def set_included_Bookings)
  have empty: "(bs = []) = (others_on_resource st R = {})"
    using set_bs by (metis set_empty)
  have "noBookingAround st bookingId body =
      (if bs = [] then Throws TypeError
       else if entries_length (foldl (noBookingAround_each (body_startDate body) (body_endDate body)) no_errors bs) \<noteq> 0
         then Respond 403 (ErrRes ''Sorry, this spot is already booked for the specified dates''
           (foldl (noBookingAround_each (body_startDate body) (body_endDate body)) no_errors bs))
         else Next)"
    using assms by (simp add: noBookingAround_def Spot_findByPk_include_eq Let_def bs_def)
  then show ?thesis
    unfolding empty foldl_noBookingAround set_bs
    by (simp add: entries_length_def no_errors_def)
qed

text \<open>
  Claim C3. For an update of the existing reservation \<open>R\<close> (its resource exists) with another
  reservation on the resource, \<^verbatim>\<open>noBookingAround\<close> flags \<^verbatim>\<open>startDate\<close> and \<^verbatim>\<open>endDate\<close>,
  with the messages of the buffered pass, if and only if some other reservation on the same
  resource starts at or after the candidate start and ends at or before the candidate end;
  it is then answered with status 403 and the top-level message, and otherwise it flags
  nothing and calls \<^verbatim>\<open>next()\<close>.
\<close>

theorem noBookingAround_enclosure_pass:
  assumes "Booking_findByPk st bookingId = Some R"
    and "Spot_findByPk st (spotId R) = Some sp"
    and "others_on_resource st R \<noteq> {}"
  shows "(flags_startDate (noBookingAround st bookingId body) \<longleftrightarrow>
            (\<exists>b\<in>others_on_resource st R.
               encloses (body_startDate body) (body_endDate body) b)) \<and>
         (flags_endDate (noBookingAround st bookingId body) \<longleftrightarrow>
            (\<exists>b\<in>others_on_resource st R.
               encloses (body_startDate body) (body_endDate body) b)) \<and>
         noBookingAround st bookingId body =
           (if \<exists>b\<in>others_on_resource st R.
                 encloses (body_startDate body) (body_endDate body) b
            then Respond 403
                   (ErrRes ''Sorry, this spot is already booked for the specified dates''
                      \<lparr>err_startDate = Some ''Start date conflicts with an existing booking'',
                       err_endDate = Some ''End date conflicts with an existing booking''\<rparr>)
            else Next)"
  using assms(3)
  by (simp add: noBookingAround_outcome[OF assms(1,2)] flags_startDate_def flags_endDate_def
      no_errors_def)

text \<open>
  The claim at both boundaries: a candidate interval equal to the interval of the
  reservation 12 encloses it; one that starts a millisecond later does not.
\<close>

theorem noBookingAround_enclosure_pass_witness:
  "Booking_findByPk store_two 11 = Some booking_a \<and>
   Spot_findByPk store_two (spotId booking_a) = Some spot_a \<and>
   others_on_resource store_two booking_a = {booking_b} \<and>
   encloses (Some 2000000000) (Some 2200000000) booking_b \<and>
   noBookingAround store_two 11 (body_only (Some 2000000000) (Some 2200000000))
     = Respond 403
         (ErrRes ''Sorry, this spot is already booked for the specified dates''
            \<lparr>err_startDate = Some ''Start date conflicts with an existing booking'',
             err_endDate = Some ''End date conflicts with an existing booking''\<rparr>) \<and>
   \<not> encloses (Some 2000000001) (Some 2200000000) booking_b \<and>
   noBookingAround store_two 11 (body_only (Some 2000000001) (Some 2200000000)) = Next"
proof -
  have others: "others_on_resource store_two booking_a = {booking_b}"
    by (auto simp: others_on_resource_def store_two_def booking_a_def booking_b_def)
  then have nonempty: "others_on_resource store_two booking_a \<noteq> {}"
    by simp
  have enc: "encloses (Some 2000000000) (Some 2200000000) booking_b"
    "\<not> encloses (Some 2000000001) (Some 2200000000) booking_b"
    by (simp_all add: encloses_def booking_b_def)
  note th = noBookingAround_enclosure_pass [OF find_booking_a_two find_spot_a_two nonempty]
  show ?thesis
    using th [of "body_only (Some 2000000000) (Some 2200000000)"]
      th [of "body_only (Some 2000000001) (Some 2200000000)"]
      find_booking_a_two find_spot_a_two others enc
    by (simp add: body_only_def)
qed

section \<open>The empty comparison set\<close>

lemma empty_set_throws:
  assumes "Booking_findByPk st bookingId = Some R"
    and "others_on_resource st R = {}"
  shows "noSameDates st bookingId body = Throws TypeError"
    and "noBookingAround st bookingId body = Throws TypeError"
proof -
  have "included_Bookings st (spotId R) (booking_id R) = []"
    using assms(2) set_included_Bookings[of st R] by (metis set_empty)
  then have "Spot_findByPk_include st (spotId R) (booking_id R) = None"
    by (simp add: Spot_findByPk_include_def split: option.splits)
  then show "noSameDates st bookingId body = Throws TypeError"
    and "noBookingAround st bookingId body = Throws TypeError"
    using assms(1) by (simp_all add: noSameDates_def noBookingAround_def)
qed

lemma find_booking_a_one: "Booking_findByPk store_one 11 = Some booking_a"
  by (simp add: Booking_findByPk_def store_one_def booking_a_def)

lemma others_store_one: "others_on_resource store_one booking_a = {}"
  by (auto simp: others_on_resource_def store_one_def)

text \<open>
  Claim C9 does not hold of the code. With no other reservation on the resource, the lookup
  with the required include returns null, and both the buffered and the enclosure pass throw
  a TypeError at \<^verbatim>\<open>spot.Bookings\<close>: an update by the holder, with valid dates in the future,
  ends in that throw.
\<close>

theorem conflict_passes_throw_on_empty_set:
  "Booking_findByPk store_one 11 = Some booking_a \<and>
   others_on_resource store_one booking_a = {} \<and>
   noSameDates store_one 11 body_alone = Throws TypeError \<and>
   noBookingAround store_one 11 body_alone = Throws TypeError \<and>
   put_route (clock_at 500000000) store_one 20 11 body_alone = (store_one, Throws TypeError)"
proof -
  have a: "noSameDates store_one 11 body_alone = Throws TypeError"
    and b: "noBookingAround store_one 11 body_alone = Throws TypeError"
    using empty_set_throws [OF find_booking_a_one others_store_one] by simp_all
  have c: "bookingAuthorize store_one 20 11 = Next"
    by (simp add: bookingAuthorize_def find_booking_a_one) (simp add: booking_a_def)
  have d: "validateBooking (clock_at 500000000) body_alone = Next"
    by (simp add: validateBooking_def validateBooking_report_def handleValidationErrors_def validateBooking_startDate_def
        validateBooking_endDate_def clock_at_def body_alone_def new_Date_def TimeClip_def
        num_plus_def getTime_def)
  have e: "pastBookingEndCheck 500000000 store_one 11 = Next"
    by (simp add: pastBookingEndCheck_def find_booking_a_one new_Date_copy_def)
       (simp add: booking_a_def)
  have "put_route (clock_at 500000000) store_one 20 11 body_alone = (store_one, Throws TypeError)"
    by (simp add: put_route_def put_checks_def a c d and_then_def) (simp add: clock_at_def e a)
  with a b find_booking_a_one others_store_one show ?thesis by simp
qed


section \<open>The point-containment pass\<close>

lemma within_test:
  "(js_ge t (new_Date_copy (startDate b)) \<and> js_le t (new_Date_copy (endDate b))) = lies_within t b"
  by (cases t; cases "startDate b"; cases "endDate b")
     (auto simp: lies_within_def new_Date_copy_def)

lemma forEach_throw_const:
  "forEach_throw (\<lambda>x. if P x then Some e else None) xs = (if \<exists>x\<in>set xs. P x then Some e else None)"
  by (induction xs) auto

lemma Spot_findAll_include_eq:
  "Spot_findByPk st sid = Some sp \<Longrightarrow>
   Spot_findAll_include st sid excl =
     (if included_Bookings st sid excl = [] then []
      else map (\<lambda>s. (s, included_Bookings st sid excl)) (filter (\<lambda>s. spot_id s = sid) (spot_rows st)))"
  by (simp add: Spot_findAll_include_def split: list.splits)

lemma forEach_throw_spots:
  "forEach_throw (\<lambda>(spot, Bookings). forEach_throw (\<lambda>b. if P b then Some e else None) Bookings) spots =
     (if \<exists>p\<in>set spots. \<exists>b\<in>set (snd p). P b then Some e else None)"
proof -
  have eq: "(\<lambda>(spot, Bookings). forEach_throw (\<lambda>b. if P b then Some e else None) Bookings) =
        (\<lambda>p. if \<exists>b\<in>set (snd p). P b then Some e else None)"
    by (auto simp: fun_eq_iff forEach_throw_const)
  show ?thesis
    unfolding eq by (rule forEach_throw_const)
qed

lemma point_pass:
  assumes "Spot_findByPk st sid = Some sp"
  shows "forEach_throw (\<lambda>(spot, Bookings). forEach_throw (\<lambda>b. if P b then Some e else None) Bookings)
           (Spot_findAll_include st sid excl) =
         (if \<exists>b\<in>set (included_Bookings st sid excl). P b then Some e else None)"
proof -
  have "filter (\<lambda>s. spot_id s = sid) (spot_rows st) \<noteq> []"
    using assms by (auto simp: Spot_findByPk_def find_Some_iff filter_empty_conv)
  then obtain s0 where "s0 \<in> set (filter (\<lambda>s. spot_id s = sid) (spot_rows st))"
    by (cases "filter (\<lambda>s. spot_id s = sid) (spot_rows st)") auto
  then show ?thesis
    unfolding forEach_throw_spots Spot_findAll_include_eq[OF assms]
    by (auto simp: image_iff)
qed

section \<open>Date-shape validation\<close>

lemma validateBooking_startDate_rule:
  "validateBooking_startDate now (Some s) =
     (if s < now then Some (Error ''startDate cannot be in the past'') else None)"
  by (simp add: validateBooking_startDate_def)

lemma validateBooking_endDate_in_range:
  assumes "\<bar>s + PROXIMITY_BUFFER_MS\<bar> \<le> 8640000000000000"
  shows "validateBooking_endDate now (body_only (Some s) (Some e)) (Some e) =
     (if e < now \<or> e \<le> s + PROXIMITY_BUFFER_MS
      then Some (Error ''endDate cannot be on or before startDate'') else None)"
  using assms
  by (simp add: validateBooking_endDate_def new_Date_def TimeClip_def num_plus_def getTime_def
      PROXIMITY_BUFFER_MS_def)

text \<open>
  Claim C5 does not hold of the code at the end of the Date range. \<^verbatim>\<open>startBuffer\<close> is
  \<^verbatim>\<open>new Date(start.getTime() + 86300000)\<close>; for a start within 86,300,000 ms of the last
  instant of a Date the sum is clipped to an Invalid Date, \<^verbatim>\<open>end <= startBuffer\<close> is false,
  and an end equal to the start, which is on or before start + 86,300,000 ms, is accepted.
\<close>

theorem validateBooking_endDate_at_range_end:
  "body_startDate body_range_end = Some 8640000000000000 \<and>
   body_endDate body_range_end = Some 8640000000000000 \<and>
   (8640000000000000 :: int) \<le> 8640000000000000 + PROXIMITY_BUFFER_MS \<and>
   validateBooking_endDate 1700000000000 body_range_end (body_endDate body_range_end) = None \<and>
   validateBooking (clock_at 1700000000000) body_range_end = Next"
  by (simp add: body_range_end_def validateBooking_def validateBooking_report_def handleValidationErrors_def
      validateBooking_startDate_def validateBooking_endDate_def clock_at_def new_Date_def
      TimeClip_def num_plus_def getTime_def PROXIMITY_BUFFER_MS_def)


section \<open>Cancellation\<close>

lemma findByPk_id: "Booking_findByPk st k = Some R \<Longrightarrow> booking_id R = k"
  by (auto simp: Booking_findByPk_def find_Some_iff)

lemma findByPk_destroy:
  "Booking_findByPk (Booking_destroy st R) (booking_id R) = None"
  by (simp add: Booking_findByPk_def Booking_destroy_def find_None_iff)

lemma in_progress_test:
  "(js_ge (Some now) (new_Date_copy (startDate R)) \<and> js_le (Some now) (new_Date_copy (endDate R)))
     = in_progress now R"
  by (cases "startDate R"; cases "endDate R") (auto simp: in_progress_def new_Date_copy_def)

lemma delete_handler_outcome:
  "Booking_findByPk st bookingId = Some R \<Longrightarrow>
   delete_handler now st bookingId =
     (if in_progress now R
      then (st, Respond 403 (Message ''Bookings that have been started can't be deleted''))
      else (Booking_destroy st R, Respond 200 (Message ''Successfully deleted'')))"
  by (simp add: delete_handler_def Let_def in_progress_test)

text \<open>
  Claim C6. A cancel request for a missing reservation is answered 404. For an existing
  reservation (its resource exists) the answer is 403 "Forbidden" if and only if the actor is
  neither the reservation's holder nor the resource's owner, and the request passes the gate
  otherwise; the resource's owner, holder or not, cancels a reservation that has not started
  with success.
\<close>

theorem bookingDeleteAuthorize_cancel_authorization:
  "(Booking_findByPk st bookingId = None \<longrightarrow>
      bookingDeleteAuthorize st user_id bookingId =
        Respond 404 (Message ''Booking couldn't be found'')) \<and>
   (Booking_findByPk st bookingId = Some R \<and> Spot_findByPk st (spotId R) = Some sp \<longrightarrow>
      (bookingDeleteAuthorize st user_id bookingId = Respond 403 (Message ''Forbidden'') \<longleftrightarrow>
         user_id \<noteq> userId R \<and> user_id \<noteq> ownerId sp) \<and>
      (bookingDeleteAuthorize st user_id bookingId = Next \<longleftrightarrow>
         user_id = userId R \<or> user_id = ownerId sp) \<and>
      (user_id = ownerId sp \<and> not_started now R \<longrightarrow>
         delete_route now st user_id bookingId =
           (Booking_destroy st R, Respond 200 (Message ''Successfully deleted''))))"
proof -
  have "\<not> in_progress now R" if "not_started now R"
    using that by (auto simp: in_progress_def not_started_def split: option.splits)
  then show ?thesis
    by (auto simp: bookingDeleteAuthorize_def delete_route_def delete_handler_outcome)
qed

theorem bookingDeleteAuthorize_cancel_authorization_witness:
  "Booking_findByPk store_two 99 = None \<and>
   bookingDeleteAuthorize store_two 10 99 = Respond 404 (Message ''Booking couldn't be found'') \<and>
   Booking_findByPk store_two 11 = Some booking_a \<and>
   Spot_findByPk store_two (spotId booking_a) = Some spot_a \<and>
   30 \<noteq> userId booking_a \<and> 30 \<noteq> ownerId spot_a \<and>
   bookingDeleteAuthorize store_two 30 11 = Respond 403 (Message ''Forbidden'') \<and>
   10 \<noteq> userId booking_a \<and> 10 = ownerId spot_a \<and> not_started 500000000 booking_a \<and>
   bookingDeleteAuthorize store_two 10 11 = Next \<and>
   delete_route 500000000 store_two 10 11 =
     (Booking_destroy store_two booking_a, Respond 200 (Message ''Successfully deleted''))"
proof -
  have none: "Booking_findByPk store_two 99 = None"
    by (simp add: Booking_findByPk_def store_two_def booking_a_def booking_b_def)
  have ids: "30 \<noteq> userId booking_a" "30 \<noteq> ownerId spot_a"
    "10 \<noteq> userId booking_a" "10 = ownerId spot_a"
    by (simp_all add: booking_a_def spot_a_def)
  have ns: "not_started 500000000 booking_a"
    by (simp add: not_started_def booking_a_def)
  have both: "Booking_findByPk store_two 11 = Some booking_a \<and>
      Spot_findByPk store_two (spotId booking_a) = Some spot_a"
    using find_booking_a_two find_spot_a_two by simp
  show ?thesis
    using bookingDeleteAuthorize_cancel_authorization
        [where st = store_two and bookingId = 99 and user_id = 10]
      bookingDeleteAuthorize_cancel_authorization
        [where st = store_two and bookingId = 11 and R = booking_a and sp = spot_a
           and user_id = 30]
      bookingDeleteAuthorize_cancel_authorization
        [where st = store_two and bookingId = 11 and R = booking_a and sp = spot_a
           and user_id = 10 and now = 500000000]
      none ids ns both
    by simp
qed

text \<open>
  Claim C7. An authorized cancel request is answered 403 "Bookings that have been started
  can't be deleted" if and only if "now" lies in the interval from the reservation's start to
  its end, both ends included; otherwise the reservation is destroyed (its key finds no row
  any more) and the answer is "Successfully deleted".
\<close>

theorem delete_route_in_progress:
  assumes "Booking_findByPk st bookingId = Some R"
    and "bookingDeleteAuthorize st user_id bookingId = Next"
  shows "delete_route now st user_id bookingId =
           (if in_progress now R
            then (st, Respond 403 (Message ''Bookings that have been started can't be deleted''))
            else (Booking_destroy st R, Respond 200 (Message ''Successfully deleted''))) \<and>
         Booking_findByPk (Booking_destroy st R) bookingId = None"
  using assms findByPk_id[OF assms(1)] findByPk_destroy[of st R]
  by (simp add: delete_route_def delete_handler_outcome)


lemma holder_may_cancel: "bookingDeleteAuthorize store_two 20 11 = Next"
  by (simp add: bookingDeleteAuthorize_def find_booking_a_two) (simp add: booking_a_def)

theorem delete_route_in_progress_witness:
  "Booking_findByPk store_two 11 = Some booking_a \<and>
   bookingDeleteAuthorize store_two 20 11 = Next \<and>
   in_progress 1000000000 booking_a \<and>
   delete_route 1000000000 store_two 20 11 =
     (store_two, Respond 403 (Message ''Bookings that have been started can't be deleted'')) \<and>
   in_progress 1200000000 booking_a \<and>
   delete_route 1200000000 store_two 20 11 =
     (store_two, Respond 403 (Message ''Bookings that have been started can't be deleted'')) \<and>
   \<not> in_progress 1200000001 booking_a \<and>
   delete_route 1200000001 store_two 20 11 =
     (Booking_destroy store_two booking_a, Respond 200 (Message ''Successfully deleted'')) \<and>
   Booking_findByPk (Booking_destroy store_two booking_a) 11 = None"
proof -
  have p: "in_progress 1000000000 booking_a" "in_progress 1200000000 booking_a"
    "\<not> in_progress 1200000001 booking_a"
    by (simp_all add: in_progress_def booking_a_def)
  note th = delete_route_in_progress [OF find_booking_a_two holder_may_cancel]
  show ?thesis
    using th [of 1000000000] th [of 1200000000] th [of 1200000001] p
      find_booking_a_two holder_may_cancel
    by simp
qed


section \<open>The update route\<close>

lemma and_then_Next: "(and_then a b = Next) = (a = Next \<and> b = Next)"
  by (cases a) (simp_all add: and_then_def)

lemma and_then_simps:
  "and_then Next b = b"
  "and_then (Respond n j) b = Respond n j"
  "and_then (Throws t) b = Throws t"
  "and_then (Rejects r) b = Rejects r"
  by (simp_all add: and_then_def)

lemma findByPk_save:
  assumes "Booking_findByPk st k = Some R" and "booking_id R' = k"
  shows "Booking_findByPk (Booking_save st R') k = Some R'"
proof -
  have "find (\<lambda>b. booking_id b = k) rows = Some R \<Longrightarrow>
        find (\<lambda>b. booking_id b = k) (map (\<lambda>r. if booking_id r = k then R' else r) rows) = Some R'"
    for rows
    using assms(2) by (induction rows) (auto split: if_splits)
  then show ?thesis
    using assms by (simp add: Booking_findByPk_def Booking_save_def)
qed

lemma included_save:
  "included_Bookings (Booking_save st R') sid (booking_id R') = included_Bookings st sid (booking_id R')"
proof -
  have "filter (\<lambda>b. spotId b = sid \<and> booking_id b \<noteq> booking_id R')
          (map (\<lambda>r. if booking_id r = booking_id R' then R' else r) rows) =
        filter (\<lambda>b. spotId b = sid \<and> booking_id b \<noteq> booking_id R') rows" for rows
    by (induction rows) auto
  then show ?thesis
    by (simp add: included_Bookings_def Booking_save_def)
qed

lemma Spot_findByPk_save: "Spot_findByPk (Booking_save st R') sid = Spot_findByPk st sid"
  by (simp add: Spot_findByPk_def Booking_save_def)

lemma lookups_save:
  "Spot_findByPk_include (Booking_save st R') sid (booking_id R') =
     Spot_findByPk_include st sid (booking_id R')"
  "Spot_findAll_include (Booking_save st R') sid (booking_id R') =
     Spot_findAll_include st sid (booking_id R')"
proof -
  have rows: "spot_rows (Booking_save st R') = spot_rows st"
    by (simp add: Booking_save_def)
  show "Spot_findByPk_include (Booking_save st R') sid (booking_id R') =
     Spot_findByPk_include st sid (booking_id R')"
    unfolding Spot_findByPk_include_def included_save Spot_findByPk_save ..
  show "Spot_findAll_include (Booking_save st R') sid (booking_id R') =
     Spot_findAll_include st sid (booking_id R')"
    unfolding Spot_findAll_include_def included_save rows ..
qed

lemma checks_save:
  assumes "Booking_findByPk st bookingId = Some R"
    and "booking_id R' = booking_id R" and "spotId R' = spotId R"
  shows "noSameDates (Booking_save st R') bookingId body = noSameDates st bookingId body"
    and "noBookingAround (Booking_save st R') bookingId body = noBookingAround st bookingId body"
    and "bookingConflictCheck (Booking_save st R') bookingId body =
         bookingConflictCheck st bookingId body"
proof -
  have id: "booking_id R = bookingId"
    using assms(1) by (rule findByPk_id)
  have f: "Booking_findByPk (Booking_save st R') bookingId = Some R'"
    using assms(1,2) id by (simp add: findByPk_save)
  have l: "Spot_findByPk_include (Booking_save st R') (spotId R) (booking_id R) =
        Spot_findByPk_include st (spotId R) (booking_id R)"
     "Spot_findAll_include (Booking_save st R') (spotId R) (booking_id R) =
        Spot_findAll_include st (spotId R) (booking_id R)"
    using lookups_save[of st R' "spotId R"] assms(2) by simp_all
  show "noSameDates (Booking_save st R') bookingId body = noSameDates st bookingId body"
    by (simp add: noSameDates_def f assms l)
  show "noBookingAround (Booking_save st R') bookingId body = noBookingAround st bookingId body"
    by (simp add: noBookingAround_def f assms l)
  have "bookingConflictCheck_startDate (Booking_save st R') bookingId =
        bookingConflictCheck_startDate st bookingId"
    and "bookingConflictCheck_endDate (Booking_save st R') bookingId =
        bookingConflictCheck_endDate st bookingId"
    by (simp_all add: fun_eq_iff bookingConflictCheck_startDate_def
        bookingConflictCheck_endDate_def f assms l)
  then show "bookingConflictCheck (Booking_save st R') bookingId body =
         bookingConflictCheck st bookingId body"
    by (simp add: bookingConflictCheck_def bookingConflictCheck_report_def)
qed

lemma put_handler_outcome:
  assumes "Booking_findByPk st bookingId = Some R"
  shows "put_handler st bookingId body =
     (Booking_save st (R\<lparr>startDate := body_startDate body, endDate := body_endDate body\<rparr>),
      Respond 200 (BookingJson (R\<lparr>startDate := body_startDate body, endDate := body_endDate body\<rparr>)))"
  using assms by (simp add: put_handler_def js_or_def ToBoolean_Date_def Let_def)


lemma bookingConflictCheck_validators:
  assumes "Booking_findByPk st bookingId = Some R"
    and "Spot_findByPk st (spotId R) = Some sp"
  shows "bookingConflictCheck_startDate st bookingId v =
           (if \<exists>b\<in>others_on_resource st R. lies_within v b
            then Some (Error ''Start date conflicts with an existing booking'') else None)"
    and "bookingConflictCheck_endDate st bookingId v =
           (if \<exists>b\<in>others_on_resource st R. lies_within v b
            then Some (Error ''End date conflicts with an existing booking'') else None)"
  using assms
  by (simp_all add: bookingConflictCheck_startDate_def bookingConflictCheck_endDate_def Let_def
      within_test point_pass set_included_Bookings)

lemma no_spot_lookups:
  assumes "Spot_findByPk st sid = None"
  shows "Spot_findByPk_include st sid excl = None"
    and "Spot_findAll_include st sid excl = []"
proof -
  have "filter (\<lambda>s. spot_id s = sid) (spot_rows st) = []"
    using assms by (auto simp: Spot_findByPk_def find_None_iff filter_empty_conv)
  then show "Spot_findAll_include st sid excl = []"
    by (simp add: Spot_findAll_include_def split: list.splits)
  show "Spot_findByPk_include st sid excl = None"
    using assms by (simp add: Spot_findByPk_include_def)
qed

lemma no_spot_no_conflict:
  assumes "Booking_findByPk st bookingId = Some R"
    and "Spot_findByPk st (spotId R) = None"
  shows "\<not> reports_conflict st bookingId body"
proof -
  have "bookingConflictCheck_startDate st bookingId = (\<lambda>v. None)"
    and "bookingConflictCheck_endDate st bookingId = (\<lambda>v. None)"
    using assms no_spot_lookups[OF assms(2)]
    by (simp_all add: fun_eq_iff bookingConflictCheck_startDate_def
        bookingConflictCheck_endDate_def)
  then have "bookingConflictCheck st bookingId body = Next"
    by (simp add: bookingConflictCheck_def bookingConflictCheck_report_def
        handleBookingConflict_def first_failure_None del: first_failure.simps)
  then show ?thesis
    using assms no_spot_lookups[OF assms(2)]
    by (simp add: reports_conflict_def noSameDates_def noBookingAround_def)
qed

lemma conflict_from_another:
  assumes "Booking_findByPk st bookingId = Some R"
    and "reports_conflict st bookingId body"
    and "elsewhere_startDate body = []" and "elsewhere_endDate body = []"
  shows "\<exists>b\<in>others_on_resource st R.
           conflicts_with (body_startDate body) (body_endDate body) b"
proof (cases "Spot_findByPk st (spotId R)")
  case None
  with assms(1,2) show ?thesis
    using no_spot_no_conflict by blast
next
  case (Some sp)
  consider "is_conflict (noSameDates st bookingId body)"
    | "is_conflict (noBookingAround st bookingId body)"
    | "is_conflict (bookingConflictCheck st bookingId body)"
    using assms(2) by (auto simp: reports_conflict_def)
  then show ?thesis
  proof cases
    case 1
    then show ?thesis
      unfolding noSameDates_outcome[OF assms(1) Some]
      by (auto simp: conflicts_with_def split: if_splits)
  next
    case 2
    then show ?thesis
      unfolding noBookingAround_outcome[OF assms(1) Some]
      by (auto simp: conflicts_with_def split: if_splits)
  next
    case 3
    then show ?thesis
      unfolding bookingConflictCheck_def bookingConflictCheck_report_def
        handleBookingConflict_def bookingConflictCheck_validators[OF assms(1) Some] assms(3,4)
      by (auto simp: conflicts_with_def split: if_splits)
  qed
qed

lemma holder_authorized: "bookingAuthorize store_two 20 11 = Next"
  by (simp add: bookingAuthorize_def find_booking_a_two) (simp add: booking_a_def)

lemma body_free_shape: "validateBooking_report (clock_at t) body_free =
    \<lparr>v_startDate = (if 6000000000 < t then Some (Error ''startDate cannot be in the past'') else None),
     v_endDate = (if 6200000000 < t then Some (Error ''endDate cannot be on or before startDate'')
                  else None)\<rparr>"
  by (simp add: validateBooking_report_def validateBooking_startDate_def
      validateBooking_endDate_def clock_at_def body_free_def new_Date_def TimeClip_def
      num_plus_def getTime_def)

lemma body_free_no_conflict:
  "noSameDates store_two 11 body_free = Next"
  "noBookingAround store_two 11 body_free = Next"
  "bookingConflictCheck store_two 11 body_free = Next"
proof -
  have others: "others_on_resource store_two booking_a = {booking_b}"
    by (auto simp: others_on_resource_def store_two_def booking_a_def booking_b_def)
  show "noSameDates store_two 11 body_free = Next"
    unfolding noSameDates_outcome[OF find_booking_a_two find_spot_a_two] others
    by (simp add: within_buffer_def PROXIMITY_BUFFER_MS_def body_free_def booking_b_def)
  show "noBookingAround store_two 11 body_free = Next"
    unfolding noBookingAround_outcome[OF find_booking_a_two find_spot_a_two] others
    by (simp add: encloses_def body_free_def booking_b_def)
  show "bookingConflictCheck store_two 11 body_free = Next"
    unfolding bookingConflictCheck_def bookingConflictCheck_report_def handleBookingConflict_def
      bookingConflictCheck_validators[OF find_booking_a_two find_spot_a_two] others
    by (simp add: lies_within_def body_free_def booking_b_def)
qed

lemma body_free_accepted: "put_checks (clock_at 500000000) store_two 20 11 body_free = Next"
proof -
  have "validateBooking (clock_at 500000000) body_free = Next"
    by (simp add: validateBooking_def body_free_shape handleValidationErrors_def)
  moreover have "pastBookingEndCheck (now_pastEnd (clock_at 500000000)) store_two 11 = Next"
    by (simp add: pastBookingEndCheck_def find_booking_a_two new_Date_copy_def)
       (simp add: booking_a_def clock_at_def)
  ultimately show ?thesis
    by (simp add: put_checks_def and_then_Next holder_authorized body_free_no_conflict)
qed


subsection \<open>The point-containment pass on a request\<close>

text \<open>
  What \<^verbatim>\<open>bookingConflictCheck\<close> reports for a request: a field fails when one of its values,
  in the body or in another location, lies in the interval of another reservation.
\<close>

lemma bookingConflictCheck_report_rule:
  assumes "Booking_findByPk st bookingId = Some R"
    and "Spot_findByPk st (spotId R) = Some sp"
  shows "bookingConflictCheck_report st bookingId body =
     \<lparr>v_startDate =
        (if \<exists>d\<in>set (body_startDate body # elsewhere_startDate body).
              \<exists>b\<in>others_on_resource st R. lies_within d b
         then Some (Error ''Start date conflicts with an existing booking'') else None),
      v_endDate =
        (if \<exists>d\<in>set (body_endDate body # elsewhere_endDate body).
              \<exists>b\<in>others_on_resource st R. lies_within d b
         then Some (Error ''End date conflicts with an existing booking'') else None)\<rparr>"
  unfolding bookingConflictCheck_report_def bookingConflictCheck_validators[OF assms]
    first_failure_const ..

lemma bookingConflictCheck_body_only:
  assumes "Booking_findByPk st bookingId = Some R"
    and "Spot_findByPk st (spotId R) = Some sp"
  shows "bookingConflictCheck_report st bookingId (body_only start end) =
     \<lparr>v_startDate =
        (if \<exists>b\<in>others_on_resource st R. lies_within start b
         then Some (Error ''Start date conflicts with an existing booking'') else None),
      v_endDate =
        (if \<exists>b\<in>others_on_resource st R. lies_within end b
         then Some (Error ''End date conflicts with an existing booking'') else None)\<rparr>"
  by (simp add: bookingConflictCheck_report_rule[OF assms])

text \<open>
  Claim C4 does not hold of the code for a request that carries \<^verbatim>\<open>startDate\<close> outside its
  body as well. The candidate start, the one of the body that every other middleware reads
  and the handler saves, lies in no other reservation's interval; the value of the query
  string lies in the reservation 12, and the \<^verbatim>\<open>check('startDate')\<close> chain reports a start
  date conflict for it: the update by the holder is rejected.
\<close>

theorem bookingConflictCheck_reports_query_value:
  "Booking_findByPk store_two 11 = Some booking_a \<and>
   others_on_resource store_two booking_a = {booking_b} \<and>
   body_startDate body_query = Some 6000000000 \<and>
   \<not> lies_within (body_startDate body_query) booking_b \<and>
   \<not> lies_within (body_endDate body_query) booking_b \<and>
   bookingConflictCheck_report store_two 11 body_query =
     \<lparr>v_startDate = Some (Error ''Start date conflicts with an existing booking''),
      v_endDate = None\<rparr> \<and>
   put_route (clock_at 500000000) store_two 20 11 body_query =
     (store_two, Rejects (ScheduleConflict
        ''Sorry, this spot is already booked for the specified dates''
        \<lparr>v_startDate = Some (Error ''Start date conflicts with an existing booking''),
         v_endDate = None\<rparr>))"
proof -
  have others: "others_on_resource store_two booking_a = {booking_b}"
    by (auto simp: others_on_resource_def store_two_def booking_a_def booking_b_def)
  have fields: "body_startDate body_query = Some 6000000000"
    "body_endDate body_query = Some 6200000000"
    "elsewhere_startDate body_query = [Some 2100000000]"
    "elsewhere_endDate body_query = []"
    by (simp_all add: body_query_def body_free_def)
  have free: "\<not> lies_within (Some 6000000000) booking_b"
    "\<not> lies_within (Some 6200000000) booking_b"
    and hit: "lies_within (Some 2100000000) booking_b"
    by (simp_all add: lies_within_def booking_b_def)
  have rep: "bookingConflictCheck_report store_two 11 body_query =
     \<lparr>v_startDate = Some (Error ''Start date conflicts with an existing booking''),
      v_endDate = None\<rparr>"
    by (simp add: bookingConflictCheck_report_rule[OF find_booking_a_two find_spot_a_two]
        others fields free hit)
  have shape: "validateBooking (clock_at 500000000) body_query = Next"
    by (simp add: validateBooking_def validateBooking_report_def handleValidationErrors_def
        validateBooking_startDate_def validateBooking_endDate_def clock_at_def fields
        new_Date_def TimeClip_def num_plus_def getTime_def)
  have past: "pastBookingEndCheck (now_pastEnd (clock_at 500000000)) store_two 11 = Next"
    by (simp add: pastBookingEndCheck_def find_booking_a_two new_Date_copy_def)
       (simp add: booking_a_def clock_at_def)
  have same: "noSameDates store_two 11 body_query = Next"
    unfolding noSameDates_outcome[OF find_booking_a_two find_spot_a_two] others
    by (simp add: within_buffer_def PROXIMITY_BUFFER_MS_def fields booking_b_def)
  have around: "noBookingAround store_two 11 body_query = Next"
    unfolding noBookingAround_outcome[OF find_booking_a_two find_spot_a_two] others
    by (simp add: encloses_def fields booking_b_def)
  have "put_route (clock_at 500000000) store_two 20 11 body_query =
     (store_two, Rejects (ScheduleConflict
        ''Sorry, this spot is already booked for the specified dates''
        \<lparr>v_startDate = Some (Error ''Start date conflicts with an existing booking''),
         v_endDate = None\<rparr>))"
    by (simp add: put_route_def put_checks_def holder_authorized shape past same around
        and_then_simps bookingConflictCheck_def handleBookingConflict_def rep)
  with others fields free rep find_booking_a_two show ?thesis by simp
qed

subsection \<open>Past-end immutability and date-shape validation\<close>

text \<open>
  Claim C2, as amended. The route runs \<^verbatim>\<open>validateBooking\<close> before
  \<^verbatim>\<open>pastBookingEndCheck\<close>. For an update by the holder of an existing reservation whose
  stored end is strictly before "now": when the proposed dates pass the date-shape validation
  the answer is 403 "Past bookings can't be modified"; when they fail it, the request ends
  with the InvalidDateShape rejection and the report of the validators. The store is
  unchanged in both cases.
\<close>

theorem put_route_past_end:
  assumes "Booking_findByPk st bookingId = Some R"
    and "user_id = userId R"
    and "endDate R = Some e" and "e < now_pastEnd clk"
  shows "put_route clk st user_id bookingId body =
           (st, if validateBooking_report clk body = \<lparr>v_startDate = None, v_endDate = None\<rparr>
                then Respond 403 (Message ''Past bookings can't be modified'')
                else Rejects (InvalidDateShape (validateBooking_report clk body)))"
proof -
  have auth: "bookingAuthorize st user_id bookingId = Next"
    using assms by (simp add: bookingAuthorize_def)
  have past: "pastBookingEndCheck (now_pastEnd clk) st bookingId =
      Respond 403 (Message ''Past bookings can't be modified'')"
    using assms by (simp add: pastBookingEndCheck_def new_Date_copy_def)
  have val: "validateBooking clk body =
      (if validateBooking_report clk body = \<lparr>v_startDate = None, v_endDate = None\<rparr> then Next
       else Rejects (InvalidDateShape (validateBooking_report clk body)))"
    by (cases "validateBooking_report clk body")
       (simp add: validateBooking_def handleValidationErrors_def)
  show ?thesis
    by (simp add: put_route_def put_checks_def auth past val and_then_simps)
qed


lemma body_past_shape: "validateBooking_report (clock_at 5000000000) body_past =
    \<lparr>v_startDate = Some (Error ''startDate cannot be in the past''),
     v_endDate = Some (Error ''endDate cannot be on or before startDate'')\<rparr>"
  by (simp add: validateBooking_report_def validateBooking_startDate_def
      validateBooking_endDate_def clock_at_def body_past_def)

theorem put_route_past_end_witness:
  "Booking_findByPk store_two 11 = Some booking_a \<and>
   20 = userId booking_a \<and>
   endDate booking_a = Some 1200000000 \<and>
   1200000000 < now_pastEnd (clock_at 5000000000) \<and>
   validateBooking_report (clock_at 5000000000) body_free = \<lparr>v_startDate = None, v_endDate = None\<rparr> \<and>
   put_route (clock_at 5000000000) store_two 20 11 body_free =
     (store_two, Respond 403 (Message ''Past bookings can't be modified'')) \<and>
   put_route (clock_at 5000000000) store_two 20 11 body_past =
     (store_two, Rejects (InvalidDateShape (validateBooking_report (clock_at 5000000000) body_past)))"
proof -
  have h: "20 = userId booking_a" "endDate booking_a = Some 1200000000"
    "1200000000 < now_pastEnd (clock_at 5000000000)"
    by (simp_all add: booking_a_def clock_at_def)
  have v: "validateBooking_report (clock_at 5000000000) body_free =
      \<lparr>v_startDate = None, v_endDate = None\<rparr>"
    by (simp add: body_free_shape)
  have w: "validateBooking_report (clock_at 5000000000) body_past \<noteq>
      \<lparr>v_startDate = None, v_endDate = None\<rparr>"
    by (simp add: body_past_shape)
  show ?thesis
    using put_route_past_end [OF find_booking_a_two h, of body_free]
      put_route_past_end [OF find_booking_a_two h, of body_past] find_booking_a_two h v w
    by simp
qed


text \<open>
  The claim as stated fails: the holder's update of a reservation that ended long ago, to
  dates in the past, is answered with the date-shape rejection, not with the 403 of the
  past-end check.
\<close>

theorem put_route_past_end_counterexample:
  "Booking_findByPk store_two 11 = Some booking_a \<and>
   userId booking_a = 20 \<and>
   js_lt (endDate booking_a) (Some 5000000000) \<and>
   put_route (clock_at 5000000000) store_two 20 11 body_past =
     (store_two, Rejects (InvalidDateShape
        \<lparr>v_startDate = Some (Error ''startDate cannot be in the past''),
         v_endDate = Some (Error ''endDate cannot be on or before startDate'')\<rparr>)) \<and>
   put_route (clock_at 5000000000) store_two 20 11 body_past \<noteq>
     (store_two, Respond 403 (Message ''Past bookings can't be modified''))"
proof -
  have "validateBooking (clock_at 5000000000) body_past =
      Rejects (InvalidDateShape
        \<lparr>v_startDate = Some (Error ''startDate cannot be in the past''),
         v_endDate = Some (Error ''endDate cannot be on or before startDate'')\<rparr>)"
    by (simp add: validateBooking_def validateBooking_report_def handleValidationErrors_def
        validateBooking_startDate_def validateBooking_endDate_def clock_at_def body_past_def)
  then have "put_route (clock_at 5000000000) store_two 20 11 body_past =
     (store_two, Rejects (InvalidDateShape
        \<lparr>v_startDate = Some (Error ''startDate cannot be in the past''),
         v_endDate = Some (Error ''endDate cannot be on or before startDate'')\<rparr>))"
    by (simp add: put_route_def put_checks_def holder_authorized and_then_simps)
  then show ?thesis
    using find_booking_a_two by (simp add: booking_a_def)
qed


subsection \<open>The frame of an accepted update\<close>

text \<open>
  Claim C10. An update that passes every check of the route is answered with the saved
  reservation; the row found under the key afterwards is that reservation; its start and end
  are the Dates constructed from the request (the \<^verbatim>\<open>||\<close> fallback returns its left operand,
  a Date being truthy); its id, resource reference and holder reference are those of the
  reservation before.
\<close>

theorem put_route_frame:
  assumes "Booking_findByPk st bookingId = Some R"
    and "put_checks clk st user_id bookingId body = Next"
  shows "\<exists>saved. put_route clk st user_id bookingId body =
                   (Booking_save st saved, Respond 200 (BookingJson saved)) \<and>
                 Booking_findByPk (Booking_save st saved) bookingId = Some saved \<and>
                 startDate saved = body_startDate body \<and>
                 endDate saved = body_endDate body \<and>
                 js_or (body_startDate body) (startDate R) = body_startDate body \<and>
                 js_or (body_endDate body) (endDate R) = body_endDate body \<and>
                 booking_id saved = booking_id R \<and>
                 spotId saved = spotId R \<and>
                 userId saved = userId R"
proof -
  let ?saved = "R\<lparr>startDate := body_startDate body, endDate := body_endDate body\<rparr>"
  have "put_route clk st user_id bookingId body =
          (Booking_save st ?saved, Respond 200 (BookingJson ?saved))"
    by (simp add: put_route_def assms(2) put_handler_outcome[OF assms(1)])
  moreover have "Booking_findByPk (Booking_save st ?saved) bookingId = Some ?saved"
    using findByPk_save[OF assms(1), of ?saved] findByPk_id[OF assms(1)] by simp
  ultimately show ?thesis
    by (intro exI[of _ ?saved]) (simp add: js_or_def ToBoolean_Date_def)
qed

theorem put_route_frame_witness:
  "Booking_findByPk store_two 11 = Some booking_a \<and>
   put_checks (clock_at 500000000) store_two 20 11 body_free = Next \<and>
   snd (put_route (clock_at 500000000) store_two 20 11 body_free) =
     Respond 200 (BookingJson \<lparr>booking_id = 11, spotId = 5, userId = 20,
       startDate = Some 6000000000, endDate = Some 6200000000\<rparr>) \<and>
   Booking_findByPk (fst (put_route (clock_at 500000000) store_two 20 11 body_free)) 11 =
     Some \<lparr>booking_id = 11, spotId = 5, userId = 20,
       startDate = Some 6000000000, endDate = Some 6200000000\<rparr>"
proof -
  from put_route_frame [OF find_booking_a_two body_free_accepted]
  obtain saved where r: "put_route (clock_at 500000000) store_two 20 11 body_free =
        (Booking_save store_two saved, Respond 200 (BookingJson saved))"
    and f: "Booking_findByPk (Booking_save store_two saved) 11 = Some saved"
    and d: "startDate saved = body_startDate body_free" "endDate saved = body_endDate body_free"
    and k: "booking_id saved = booking_id booking_a" "spotId saved = spotId booking_a"
      "userId saved = userId booking_a"
    by blast
  have "saved = \<lparr>booking_id = 11, spotId = 5, userId = 20,
       startDate = Some 6000000000, endDate = Some 6200000000\<rparr>"
    using d k by (cases saved) (simp add: body_free_def booking_a_def)
  with r f find_booking_a_two body_free_accepted show ?thesis by simp
qed


section \<open>Self-exclusion and idempotence\<close>

text \<open>
  Claim C8. For an update of the existing reservation \<open>R\<close>: no reservation of the comparison
  set has the id of \<open>R\<close>; when the dates are left unchanged, a conflict reported by one of the
  three checks arises from another reservation on the resource that conflicts with these
  dates; the outcome of each check is the same whatever dates \<open>R\<close> has in the store; and after
  an accepted update was saved, the three checks run again on the same dates against the
  store call \<^verbatim>\<open>next()\<close> again and report no conflict.
\<close>

theorem conflict_checks_exclude_self:
  assumes "Booking_findByPk st bookingId = Some R"
  shows "(\<forall>b\<in>set (included_Bookings st (spotId R) (booking_id R)). booking_id b \<noteq> booking_id R) \<and>
         (reports_conflict st bookingId (unchanged_dates R) \<longrightarrow>
            (\<exists>b\<in>others_on_resource st R. conflicts_with (startDate R) (endDate R) b)) \<and>
         noSameDates (Booking_save st (R\<lparr>startDate := s', endDate := e'\<rparr>)) bookingId body =
           noSameDates st bookingId body \<and>
         noBookingAround (Booking_save st (R\<lparr>startDate := s', endDate := e'\<rparr>)) bookingId body =
           noBookingAround st bookingId body \<and>
         bookingConflictCheck (Booking_save st (R\<lparr>startDate := s', endDate := e'\<rparr>)) bookingId body =
           bookingConflictCheck st bookingId body \<and>
         (put_checks clk st user_id bookingId body = Next \<longrightarrow>
            \<not> reports_conflict st bookingId body \<and>
            noSameDates (fst (put_route clk st user_id bookingId body)) bookingId body = Next \<and>
            noBookingAround (fst (put_route clk st user_id bookingId body)) bookingId body = Next \<and>
            bookingConflictCheck (fst (put_route clk st user_id bookingId body)) bookingId body = Next \<and>
            \<not> reports_conflict (fst (put_route clk st user_id bookingId body)) bookingId body)"
proof -
  have excl: "\<forall>b\<in>set (included_Bookings st (spotId R) (booking_id R)). booking_id b \<noteq> booking_id R"
    by (simp add: included_Bookings_def)
  have own: "\<exists>b\<in>others_on_resource st R. conflicts_with (startDate R) (endDate R) b"
    if "reports_conflict st bookingId (unchanged_dates R)"
    using conflict_from_another[OF assms that] by (simp add: unchanged_dates_def)
  have inv: "noSameDates (Booking_save st (R\<lparr>startDate := s, endDate := e\<rparr>)) bookingId body =
           noSameDates st bookingId body"
     "noBookingAround (Booking_save st (R\<lparr>startDate := s, endDate := e\<rparr>)) bookingId body =
           noBookingAround st bookingId body"
     "bookingConflictCheck (Booking_save st (R\<lparr>startDate := s, endDate := e\<rparr>)) bookingId body =
           bookingConflictCheck st bookingId body" for s e
    using checks_save[OF assms, of "R\<lparr>startDate := s, endDate := e\<rparr>" body] by simp_all
  have again: "\<not> reports_conflict st bookingId body \<and>
      noSameDates (fst (put_route clk st user_id bookingId body)) bookingId body = Next \<and>
      noBookingAround (fst (put_route clk st user_id bookingId body)) bookingId body = Next \<and>
      bookingConflictCheck (fst (put_route clk st user_id bookingId body)) bookingId body = Next \<and>
      \<not> reports_conflict (fst (put_route clk st user_id bookingId body)) bookingId body"
    if ok: "put_checks clk st user_id bookingId body = Next"
  proof -
    from ok have three: "noSameDates st bookingId body = Next"
      "noBookingAround st bookingId body = Next" "bookingConflictCheck st bookingId body = Next"
      by (simp_all add: put_checks_def and_then_Next)
    have "fst (put_route clk st user_id bookingId body) =
        Booking_save st (R\<lparr>startDate := body_startDate body, endDate := body_endDate body\<rparr>)"
      by (simp add: put_route_def ok put_handler_outcome[OF assms])
    then show ?thesis
      by (simp add: inv three reports_conflict_def)
  qed
  from excl own inv again show ?thesis by blast
qed

theorem conflict_checks_exclude_self_witness:
  "Booking_findByPk store_two 11 = Some booking_a \<and>
   booking_b \<in> set (included_Bookings store_two (spotId booking_a) (booking_id booking_a)) \<and>
   booking_id booking_b \<noteq> booking_id booking_a \<and>
   conflicts_with (startDate booking_a) (endDate booking_a) booking_a \<and>
   \<not> reports_conflict store_two 11 (unchanged_dates booking_a) \<and>
   put_checks (clock_at 500000000) store_two 20 11 body_free = Next \<and>
   noSameDates (fst (put_route (clock_at 500000000) store_two 20 11 body_free)) 11 body_free = Next \<and>
   noBookingAround (fst (put_route (clock_at 500000000) store_two 20 11 body_free)) 11 body_free = Next \<and>
   bookingConflictCheck (fst (put_route (clock_at 500000000) store_two 20 11 body_free)) 11 body_free
     = Next"
proof -
  note th = conflict_checks_exclude_self [OF find_booking_a_two,
      where clk = "clock_at 500000000" and user_id = 20 and body = body_free]
  have others: "others_on_resource store_two booking_a = {booking_b}"
    by (auto simp: others_on_resource_def store_two_def booking_a_def booking_b_def)
  have mem: "booking_b \<in> set (included_Bookings store_two (spotId booking_a) (booking_id booking_a))"
    by (simp add: set_included_Bookings others)
  have self: "conflicts_with (startDate booking_a) (endDate booking_a) booking_a"
    by (simp add: conflicts_with_def within_buffer_def PROXIMITY_BUFFER_MS_def booking_a_def)
  have far: "\<not> conflicts_with (startDate booking_a) (endDate booking_a) booking_b"
    by (simp add: conflicts_with_def within_buffer_def PROXIMITY_BUFFER_MS_def encloses_def
        lies_within_def booking_a_def booking_b_def)
  have quiet: "\<not> reports_conflict store_two 11 (unchanged_dates booking_a)"
    using th far by (auto simp: others)
  have other: "booking_id booking_b \<noteq> booking_id booking_a"
    using th mem by blast
  show ?thesis
    using th find_booking_a_two mem other self quiet body_free_accepted by simp
qed


end
